theory Spec2Isabelle
  imports Complex_Main "HOL-Library.Sublist"
begin

section \<open>Data model\<close>

text \<open>
  Numbers of the source are JavaScript numbers. Geometry (box sides, areas, thresholds)
  is modelled with exact rationals; the depth and the id counter with naturals.
\<close>

record BoundingBox =
  box_x :: rat
  box_y :: rat
  box_width :: rat
  box_height :: rat

text \<open>The value of \<open>el.getBoundingClientRect()\<close>: relative to the viewport.\<close>

record DOMRect =
  rect_left :: rat
  rect_top :: rat
  rect_width :: rat
  rect_height :: rat

text \<open>
  The value of \<open>window.getComputedStyle(el)\<close>, restricted to the properties the analyzer
  reads; \<open>style_opacity\<close> is the value of \<open>parseFloat(style.opacity)\<close>.
\<close>

record CSSStyle =
  style_display :: string
  style_visibility :: string
  style_opacity :: rat
  style_flexDirection :: string

record Window =
  innerWidth :: rat
  innerHeight :: rat
  scrollX :: rat
  scrollY :: rat

text \<open>What \<open>instanceof HTMLElement\<close> and \<open>instanceof SVGElement\<close> distinguish.\<close>

datatype ElementKind = HTMLElement | SVGElement | OtherElement

text \<open>
  A snapshot of a DOM element. \<open>tagName\<close> holds \<open>el.tagName.toLowerCase()\<close>,
  \<open>attr_role\<close> and \<open>attr_type\<close> hold \<open>getAttribute("role")\<close> and
  \<open>getAttribute("type")\<close> (\<open>None\<close> for \<open>null\<close>), \<open>children\<close> holds
  \<open>el.children\<close> in document order.
\<close>

datatype Element = Element
  (kind: ElementKind)
  (tagName: string)
  (elem_id: string)
  (className: string)
  (attr_role: "string option")
  (attr_type: "string option")
  (textContent: string)
  (computedStyle: CSSStyle)
  (clientRect: DOMRect)
  (children: "Element list")

datatype ContentType = image | button | text_type | icon

datatype SemanticType = header | navigation | hero | content | card | cta | footer

record ContentHint =
  hint_type :: ContentType
  hint_bbox :: BoundingBox
  hint_label :: "string option"

text \<open>
  A node of the wireframe. \<open>node_id n\<close> stands for the string \<open>wf-node-n\<close>;
  \<open>contentHints\<close> is \<open>None\<close> where the source stores \<open>undefined\<close>.
\<close>

datatype WireframeNode = WireframeNode
  (node_id: nat)
  (node_tagName: string)
  (label: string)
  (bbox: BoundingBox)
  (depth: nat)
  (node_children: "WireframeNode list")
  (isLandmarkNode: bool)
  (semanticType: SemanticType)
  (contentHints: "ContentHint list option")

record AnalyzerConfig =
  minArea :: rat
  maxDepth :: nat
  viewportAreaThreshold :: rat

record WireframeModel =
  nodes :: "WireframeNode list"
  viewport_width :: rat
  viewport_height :: rat

section \<open>Strings and regular expressions\<close>

text \<open>
  Strings are lists of ASCII characters, and \<open>\s\<close> is the ASCII white space.
\<close>

definition whitespace :: "char list" where
  "whitespace = [CHR '' '', CHR 0x09, CHR 0x0A, CHR 0x0B, CHR 0x0C, CHR 0x0D]"

definition isSpace :: "char \<Rightarrow> bool" where
  "isSpace c = (c \<in> set whitespace)"

definition isDigit :: "char \<Rightarrow> bool" where
  "isDigit c = (c \<in> set ''0123456789'')"

definition isLowerChar :: "char \<Rightarrow> bool" where
  "isLowerChar c = (c \<in> set ''abcdefghijklmnopqrstuvwxyz'')"

definition isUpperChar :: "char \<Rightarrow> bool" where
  "isUpperChar c = (c \<in> set ''ABCDEFGHIJKLMNOPQRSTUVWXYZ'')"

definition isWordChar :: "char \<Rightarrow> bool" where
  "isWordChar c = (isLowerChar c \<or> isUpperChar c \<or> isDigit c \<or> c = CHR ''_'')"

definition toLowerChar :: "char \<Rightarrow> char" where
  "toLowerChar c =
     (case map_of (zip ''ABCDEFGHIJKLMNOPQRSTUVWXYZ'' ''abcdefghijklmnopqrstuvwxyz'') c of
        Some l \<Rightarrow> l | None \<Rightarrow> c)"

definition toUpperChar :: "char \<Rightarrow> char" where
  "toUpperChar c =
     (case map_of (zip ''abcdefghijklmnopqrstuvwxyz'' ''ABCDEFGHIJKLMNOPQRSTUVWXYZ'') c of
        Some u \<Rightarrow> u | None \<Rightarrow> c)"

definition toLowerCase :: "string \<Rightarrow> string" where
  "toLowerCase s = map toLowerChar s"

text \<open>\<open>s.trim()\<close>\<close>

definition trim :: "string \<Rightarrow> string" where
  "trim s = rev (dropWhile isSpace (rev (dropWhile isSpace s)))"

text \<open>\<open>s.charAt(0).toUpperCase() + s.slice(1)\<close>\<close>

fun capitalize :: "string \<Rightarrow> string" where
  "capitalize [] = []"
| "capitalize (c # cs) = toUpperChar c # cs"

text \<open>
  The regular expressions of the source use literals, character classes, \<open>\d\<close>, \<open>.\<close>,
  sequence, alternation, \<open>?\<close>, \<open>*\<close>, \<open>^\<close>, \<open>$\<close> and \<open>\b\<close>. A match state is the
  character before the current position (\<open>None\<close> at the start) and the rest of the input;
  \<open>rmatch r st\<close> lists the states reachable by matching \<open>r\<close> from \<open>st\<close>.
\<close>

datatype regex =
    Lit string
  | OneOf "char list"
  | Digit
  | AnyChar
  | Seq regex regex
  | Alt regex regex
  | Opt regex
  | Star regex
  | Bol
  | Eol
  | WordBoundary

type_synonym mstate = "char option \<times> string"

fun matchLit :: "string \<Rightarrow> mstate \<Rightarrow> mstate list" where
  "matchLit [] st = [st]"
| "matchLit (c # cs) (p, []) = []"
| "matchLit (c # cs) (p, d # ds) = (if c = d then matchLit cs (Some d, ds) else [])"

fun matchOne :: "(char \<Rightarrow> bool) \<Rightarrow> mstate \<Rightarrow> mstate list" where
  "matchOne P (p, []) = []"
| "matchOne P (p, d # ds) = (if P d then [(Some d, ds)] else [])"

fun iterate :: "nat \<Rightarrow> (mstate \<Rightarrow> mstate list) \<Rightarrow> mstate list \<Rightarrow> mstate list" where
  "iterate 0 f sts = sts"
| "iterate (Suc n) f sts = (if sts = [] then [] else sts @ iterate n f (concat (map f sts)))"

fun isWordAt :: "char option \<Rightarrow> bool" where
  "isWordAt None = False"
| "isWordAt (Some c) = isWordChar c"

fun nextChar :: "string \<Rightarrow> char option" where
  "nextChar [] = None"
| "nextChar (c # cs) = Some c"

primrec rmatch :: "regex \<Rightarrow> mstate \<Rightarrow> mstate list" where
  "rmatch (Lit cs) st = matchLit cs st"
| "rmatch (OneOf cs) st = matchOne (\<lambda>c. c \<in> set cs) st"
| "rmatch Digit st = matchOne isDigit st"
| "rmatch AnyChar st = matchOne (\<lambda>c. c \<noteq> CHR 0x0A \<and> c \<noteq> CHR 0x0D) st"
| "rmatch (Seq r1 r2) st = concat (map (rmatch r2) (rmatch r1 st))"
| "rmatch (Alt r1 r2) st = rmatch r1 st @ rmatch r2 st"
| "rmatch (Opt r) st = rmatch r st @ [st]"
| "rmatch (Star r) st = iterate (length (snd st)) (rmatch r) [st]"
| "rmatch Bol st = (if fst st = None then [st] else [])"
| "rmatch Eol st = (if snd st = [] then [st] else [])"
| "rmatch WordBoundary st =
     (if isWordAt (fst st) \<noteq> isWordAt (nextChar (snd st)) then [st] else [])"

text \<open>\<open>search r p s\<close>: the pattern matches at some position of \<open>s\<close>.\<close>

fun search :: "regex \<Rightarrow> char option \<Rightarrow> string \<Rightarrow> bool" where
  "search r p [] = (rmatch r (p, []) \<noteq> [])"
| "search r p (c # cs) = (rmatch r (p, c # cs) \<noteq> [] \<or> search r (Some c) cs)"

text \<open>\<open>/r/.test(s)\<close>\<close>

definition regex_test :: "regex \<Rightarrow> string \<Rightarrow> bool" where
  "regex_test r s = search r None s"

text \<open>
  \<open>/r/i.test(s)\<close>. The patterns with the flag \<open>i\<close> are written in lower case and have
  no letter ranges, so they match \<open>s\<close> ignoring case exactly when they match the
  lower-cased \<open>s\<close>.
\<close>

definition regex_test_i :: "regex \<Rightarrow> string \<Rightarrow> bool" where
  "regex_test_i r s = search r None (toLowerCase s)"

text \<open>\<open>s.split(/\s+/)\<close>\<close>

function splitWs :: "string \<Rightarrow> string \<Rightarrow> string list" where
  "splitWs cur [] = [cur]"
| "splitWs cur (c # cs) =
     (if isSpace c then cur # splitWs [] (dropWhile isSpace cs) else splitWs (cur @ [c]) cs)"
  by pat_completeness auto
termination
  by (relation "measure (\<lambda>(cur, s). length s)")
     (auto simp: less_Suc_eq_le length_dropWhile_le)

section \<open>Constant tables\<close>

definition LANDMARK_TAGS :: "string list" where
  "LANDMARK_TAGS = [''header'', ''nav'', ''main'', ''section'', ''article'', ''aside'', ''footer'']"

definition LANDMARK_ROLES :: "string list" where
  "LANDMARK_ROLES = [''banner'', ''navigation'', ''main'', ''contentinfo'', ''complementary'',
     ''region'', ''search'', ''form'']"

definition SKIP_TAGS :: "string list" where
  "SKIP_TAGS = [''h1'', ''h2'', ''h3'', ''h4'', ''h5'', ''h6'', ''p'', ''blockquote'', ''pre'',
     ''span'', ''a'', ''em'', ''strong'', ''b'', ''i'', ''label'', ''small'', ''sub'', ''sup'',
     ''abbr'', ''code'', ''kbd'', ''mark'', ''q'', ''s'', ''u'', ''var'', ''time'', ''br'', ''wbr'',
     ''script'', ''style'', ''link'', ''meta'', ''noscript'', ''template'',
     ''img'', ''svg'', ''picture'', ''video'', ''audio'', ''canvas'', ''iframe'',
     ''input'', ''textarea'', ''select'', ''button'', ''form'',
     ''ul'', ''ol'', ''li'', ''dl'', ''dt'', ''dd'',
     ''table'', ''thead'', ''tbody'', ''tr'', ''td'', ''th'']"

text \<open>\<open>[-_\s]?\<close> and \<open>[-_]?\<close>\<close>

definition sepWs :: regex where
  "sepWs = Opt (OneOf (''-_'' @ whitespace))"

definition sep :: regex where
  "sep = Opt (OneOf ''-_'')"

definition STRUCTURAL_CLASS_PATTERNS :: "(regex \<times> string) list" where
  "STRUCTURAL_CLASS_PATTERNS = [
     (Alt (Seq (Lit ''hero'') (Seq sepWs (Lit ''section'')))
        (Alt (Seq (Lit ''hero'') (Seq sepWs (Lit ''banner''))) (Seq (Lit ''hero'') Eol)),
      ''Hero''),
     (Lit ''hero'', ''Hero''),
     (Seq (Lit ''card'') (Seq sepWs (Alt (Lit ''grid'') (Alt (Lit ''list'') (Lit ''container'')))),
      ''Cards''),
     (Lit ''card'', ''Card''),
     (Seq (Lit ''feature'') (Seq sepWs (Alt (Lit ''grid'') (Alt (Lit ''list'') (Lit ''section'')))),
      ''Features''),
     (Lit ''feature'', ''Feature''),
     (Seq (Lit ''service'') (Seq sepWs (Alt (Lit ''grid'') (Alt (Lit ''list'') (Lit ''section'')))),
      ''Services''),
     (Lit ''service'', ''Service''),
     (Lit ''testimonial'', ''Testimonials''),
     (Lit ''pricing'', ''Pricing''),
     (Alt (Lit ''cta'') (Seq (Lit ''call'') (Seq sep (Seq (Lit ''to'') (Seq sep (Lit ''action''))))),
      ''CTA''),
     (Lit ''banner'', ''Banner''),
     (Lit ''sidebar'', ''Sidebar''),
     (Seq (Lit ''contact'') (Seq sepWs (Alt (Lit ''form'') (Lit ''section''))), ''Contact''),
     (Seq (Lit ''about'') (Seq sepWs (Alt (Lit ''section'') (Lit ''us''))), ''About''),
     (Lit ''team'', ''Team''),
     (Lit ''faq'', ''FAQ''),
     (Lit ''gallery'', ''Gallery''),
     (Lit ''portfolio'', ''Portfolio''),
     (Seq (Lit ''blog'') (Seq sepWs (Alt (Lit ''post'') (Lit ''section''))), ''Blog''),
     (Lit ''news'', ''News''),
     (Alt (Lit ''stats'') (Lit ''statistics''), ''Stats''),
     (Lit ''benefits'', ''Benefits''),
     (Alt (Lit ''partners'') (Alt (Lit ''clients'') (Lit ''logos'')), ''Partners''),
     (Lit ''newsletter'', ''Newsletter''),
     (Lit ''social'', ''Social''),
     (Seq (Lit ''map'') (Seq sepWs (Alt (Lit ''section'') (Lit ''container''))), ''Map''),
     (Lit ''location'', ''Location''),
     (Alt (Lit ''hours'') (Alt (Lit ''schedule'') (Lit ''opening'')), ''Hours'')]"

text \<open>\<open>/^w$/i\<close>\<close>

definition whole :: "string \<Rightarrow> regex" where
  "whole w = Seq Bol (Seq (Lit w) Eol)"

definition GENERIC_CONTAINER_PATTERNS :: "regex list" where
  "GENERIC_CONTAINER_PATTERNS = [
     whole ''container'',
     whole ''wrapper'',
     whole ''inner'',
     whole ''outer'',
     whole ''content'',
     whole ''box'',
     whole ''row'',
     Seq Bol (Seq (Lit ''col'') (Seq (Opt (Lit ''umn'')) (Seq sep (Seq (Star Digit) Eol)))),
     whole ''grid'',
     whole ''flex'',
     whole ''layout'',
     Seq Bol (Seq (Lit ''max'') (Seq sep (Lit ''w''))),
     Seq Bol (Seq (Lit ''mx'') (Seq sep (Lit ''auto''))),
     Seq Bol (Seq (Lit ''px'') (Seq sep Digit)),
     Seq Bol (Seq (Lit ''py'') (Seq sep Digit)),
     Seq Bol (Seq (Lit ''p'') (Seq sep Digit)),
     Seq Bol (Seq (Lit ''m'') (Seq sep Digit))]"

definition DEFAULT_CONFIG :: AnalyzerConfig where
  "DEFAULT_CONFIG = \<lparr>minArea = 10000, maxDepth = 3, viewportAreaThreshold = 5 / 100\<rparr>"

definition GRID_ITEM_MIN_AREA :: rat where
  "GRID_ITEM_MIN_AREA = 2500"

text \<open>\<open>CONTENT_MIN_SIZES[type]\<close> as (width, height), and \<open>CONTENT_MAX_COUNTS[type]\<close>\<close>

fun CONTENT_MIN_SIZES :: "ContentType \<Rightarrow> rat \<times> rat" where
  "CONTENT_MIN_SIZES image = (30, 30)"
| "CONTENT_MIN_SIZES button = (50, 20)"
| "CONTENT_MIN_SIZES text_type = (50, 10)"
| "CONTENT_MIN_SIZES icon = (12, 12)"

fun CONTENT_MAX_COUNTS :: "ContentType \<Rightarrow> nat" where
  "CONTENT_MAX_COUNTS image = 5"
| "CONTENT_MAX_COUNTS button = 3"
| "CONTENT_MAX_COUNTS text_type = 1"
| "CONTENT_MAX_COUNTS icon = 6"

section \<open>Element predicates\<close>

definition isElementVisible :: "Element \<Rightarrow> bool" where
  "isElementVisible el =
     (let style = computedStyle el in
      if style_display style = ''none'' then False
      else if style_visibility style = ''hidden'' then False
      else if style_opacity style = 0 then False
      else
        let rect = clientRect el in
        if rect_width rect = 0 \<or> rect_height rect = 0 then False else True)"

definition getAbsoluteBoundingBox :: "Window \<Rightarrow> Element \<Rightarrow> BoundingBox" where
  "getAbsoluteBoundingBox win el =
     (let rect = clientRect el in
      \<lparr>box_x = rect_left rect + scrollX win,
       box_y = rect_top rect + scrollY win,
       box_width = rect_width rect,
       box_height = rect_height rect\<rparr>)"

definition isLandmark :: "Element \<Rightarrow> bool" where
  "isLandmark el =
     (if tagName el \<in> set LANDMARK_TAGS then True
      else case attr_role el of
             Some role \<Rightarrow> role \<noteq> [] \<and> role \<in> set LANDMARK_ROLES
           | None \<Rightarrow> False)"

text \<open>The loop over a pattern table: the label of the first pattern that matches.\<close>

fun firstLabel :: "(regex \<times> string) list \<Rightarrow> string \<Rightarrow> string option" where
  "firstLabel [] s = None"
| "firstLabel ((pattern, lbl) # rest) s =
     (if regex_test_i pattern s then Some lbl else firstLabel rest s)"

definition getClassLabel :: "Element \<Rightarrow> string option" where
  "getClassLabel el =
     (if className el = [] then None
      else firstLabel STRUCTURAL_CLASS_PATTERNS (className el))"

definition hasOnlyGenericClasses :: "Element \<Rightarrow> bool" where
  "hasOnlyGenericClasses el =
     (if className el = [] then True
      else
        let classes = filter (\<lambda>c. length c > 0) (splitWs [] (className el)) in
        if length classes = 0 then True
        else list_all (\<lambda>cls. list_ex (\<lambda>pattern. regex_test_i pattern cls)
                                 GENERIC_CONTAINER_PATTERNS) classes)"

definition isGridOrFlexContainer :: "Element \<Rightarrow> bool" where
  "isGridOrFlexContainer el =
     (let style = computedStyle el; display = style_display style in
      if display = ''grid'' \<or> display = ''inline-grid'' then True
      else if display = ''flex'' \<or> display = ''inline-flex'' then
        (let direction = style_flexDirection style in
         direction = ''row'' \<or> direction = ''row-reverse'')
      else False)"

definition getVisibleChildren :: "Element \<Rightarrow> Element list" where
  "getVisibleChildren el =
     filter (\<lambda>child. kind child = HTMLElement \<and> tagName child \<notin> set SKIP_TAGS
                        \<and> isElementVisible child)
       (children el)"

text \<open>
  The sizes are (width, height, area). The significant sizes have an area above 1000 and
  the sides of a rectangle are not negative, so the averages are positive where the source
  divides by them.
\<close>

definition areChildrenSimilarlySized :: "Element list \<Rightarrow> rat \<Rightarrow> bool" where
  "areChildrenSimilarlySized cs tolerance =
     (if length cs < 2 then False
      else
        let sizes = map (\<lambda>child. let rect = clientRect child in
                           (rect_width rect, rect_height rect, rect_width rect * rect_height rect)) cs;
            significantSizes = filter (\<lambda>(w, h, a). a > 1000) sizes
        in
        if length significantSizes < 2 then False
        else
          let avgWidth = foldl (\<lambda>sum (w, h, a). sum + w) 0 significantSizes
                           / of_nat (length significantSizes);
              avgHeight = foldl (\<lambda>sum (w, h, a). sum + h) 0 significantSizes
                           / of_nat (length significantSizes)
          in
          list_all (\<lambda>(w, h, a).
                      let widthDiff = \<bar>w - avgWidth\<bar> / avgWidth;
                          heightDiff = \<bar>h - avgHeight\<bar> / avgHeight
                      in widthDiff \<le> tolerance \<and> heightDiff \<le> tolerance)
            significantSizes)"

definition detectGridItems :: "Element \<Rightarrow> Element list option" where
  "detectGridItems el =
     (if \<not> isGridOrFlexContainer el then None
      else
        let cs = getVisibleChildren el in
        if length cs < 2 then None
        else
          let nonLandmarkChildren = filter (\<lambda>child. \<not> isLandmark child) cs in
          if length nonLandmarkChildren < 2 then None
          else if \<not> areChildrenSimilarlySized nonLandmarkChildren (3 / 10) then None
          else
            let validChildren =
                  filter (\<lambda>child. let rect = clientRect child in
                            rect_width rect * rect_height rect \<ge> GRID_ITEM_MIN_AREA)
                    nonLandmarkChildren
            in if length validChildren \<ge> 2 then Some validChildren else None)"

definition isSignificant :: "Window \<Rightarrow> Element \<Rightarrow> rat \<Rightarrow> AnalyzerConfig \<Rightarrow> bool" where
  "isSignificant win el viewportArea config =
     (if tagName el \<in> set SKIP_TAGS then False
      else
        let box = getAbsoluteBoundingBox win el;
            area = box_width box * box_height box
        in
        if area < minArea config then False
        else if isLandmark el then True
        else if getClassLabel el \<noteq> None then True
        else if tagName el = ''div'' \<and> hasOnlyGenericClasses el then False
        else if tagName el = ''div'' then (if area > viewportArea * (1 / 10) then True else False)
        else False)"

section \<open>Labels and semantic types\<close>

text \<open>The descendants of an element in document order, as the selector queries list them.\<close>

fun descendants :: "Element \<Rightarrow> Element list" where
  "descendants (Element k t i c r ty tx st re cs) =
     concat (map (\<lambda>child. child # descendants child) cs)"

text \<open>\<open>el.querySelectorAll(selector)\<close>, the selector given as a predicate.\<close>

definition querySelectorAll :: "(Element \<Rightarrow> bool) \<Rightarrow> Element \<Rightarrow> Element list" where
  "querySelectorAll sel el = filter sel (descendants el)"

text \<open>\<open>el.querySelector(selector)\<close>\<close>

definition querySelector :: "(Element \<Rightarrow> bool) \<Rightarrow> Element \<Rightarrow> Element option" where
  "querySelector sel el = List.find sel (descendants el)"

definition hasTag :: "string list \<Rightarrow> Element \<Rightarrow> bool" where
  "hasTag tags el = (tagName el \<in> set tags)"

definition inferLabelFromContent :: "Element \<Rightarrow> string option" where
  "inferLabelFromContent el =
     (case querySelector (hasTag [''h1'', ''h2'', ''h3'']) el of
        None \<Rightarrow> None
      | Some heading \<Rightarrow>
          if textContent heading = [] then None
          else
            let txt = trim (textContent heading) in
            if length txt > 0 \<and> length txt < 50 then
              (let lbl = take 25 txt in
               Some (if length lbl < length txt then lbl @ ''...'' else lbl))
            else None)"

definition inferGridItemLabel :: "Element \<Rightarrow> string" where
  "inferGridItemLabel el =
     (case getClassLabel el of
        Some classLabel \<Rightarrow> classLabel
      | None \<Rightarrow>
          (case inferLabelFromContent el of
             Some contentLabel \<Rightarrow> contentLabel
           | None \<Rightarrow> ''Card''))"

text \<open>\<open>s.replace(/([a-z])([A-Z])/g, "$1 $2")\<close>\<close>

fun splitCamel :: "string \<Rightarrow> string" where
  "splitCamel (a # b # cs) =
     (if isLowerChar a \<and> isUpperChar b then a # CHR '' '' # b # splitCamel cs
      else a # splitCamel (b # cs))"
| "splitCamel cs = cs"

text \<open>Step 2 of the cascade, for an id that passed the length test.\<close>

definition cleanId :: "string \<Rightarrow> string" where
  "cleanId ident =
     toLowerCase (splitCamel (map (\<lambda>c. if c = CHR ''-'' \<or> c = CHR ''_'' then CHR '' '' else c) ident))"

definition labelFromId :: "string \<Rightarrow> string" where
  "labelFromId ident =
     (case firstLabel STRUCTURAL_CLASS_PATTERNS ident of
        Some lbl \<Rightarrow> lbl
      | None \<Rightarrow> capitalize (cleanId ident))"

definition roleLabels :: "(string \<times> string) list" where
  "roleLabels = [(''banner'', ''Header''), (''navigation'', ''Navigation''),
     (''main'', ''Main Content''), (''contentinfo'', ''Footer''),
     (''complementary'', ''Sidebar''), (''search'', ''Search''), (''region'', ''Region'')]"

definition tagLabels :: "(string \<times> string) list" where
  "tagLabels = [(''header'', ''Header''), (''nav'', ''Navigation''), (''main'', ''Main Content''),
     (''section'', ''Section''), (''article'', ''Article''), (''aside'', ''Sidebar''),
     (''footer'', ''Footer'')]"

text \<open>Steps 4 to 6 of the cascade.\<close>

definition labelFromContentOrTag :: "Element \<Rightarrow> string" where
  "labelFromContentOrTag el =
     (let contentLabel =
            (if tagName el = ''section'' \<or> tagName el = ''article'' \<or> tagName el = ''div''
             then inferLabelFromContent el else None)
      in case contentLabel of
           Some lbl \<Rightarrow> lbl
         | None \<Rightarrow>
             (case map_of tagLabels (tagName el) of
                Some lbl \<Rightarrow> lbl
              | None \<Rightarrow> if tagName el = ''div'' then ''Block'' else capitalize (tagName el)))"

text \<open>
  Steps 3 to 6 of the cascade. The lookups \<open>roleLabels[role]\<close> and
  \<open>tagLabels[tagName]\<close> are lookups in the tables' own keys.
\<close>

definition labelFromRole :: "Element \<Rightarrow> string" where
  "labelFromRole el =
     (case (case attr_role el of None \<Rightarrow> None | Some role \<Rightarrow> map_of roleLabels role) of
        Some lbl \<Rightarrow> lbl
      | None \<Rightarrow> labelFromContentOrTag el)"

definition generateLabel :: "Element \<Rightarrow> string" where
  "generateLabel el =
     (case getClassLabel el of
        Some classLabel \<Rightarrow> classLabel
      | None \<Rightarrow>
          let ident = elem_id el in
          if ident \<noteq> [] \<and> length ident > 2 \<and> length ident < 30 then labelFromId ident
          else labelFromRole el)"

definition getSemanticType :: "Element \<Rightarrow> string \<Rightarrow> SemanticType" where
  "getSemanticType el lbl =
     (let tag = tagName el; role = attr_role el in
      if tag = ''header'' \<or> role = Some ''banner'' then header
      else if tag = ''nav'' \<or> role = Some ''navigation'' then navigation
      else if tag = ''footer'' \<or> role = Some ''contentinfo'' then footer
      else
        let lowerLabel = toLowerCase lbl in
        if regex_test (Alt (Lit ''hero'') (Lit ''banner'')) lowerLabel then hero
        else if regex_test (Alt (Lit ''card'') (Alt (Lit ''feature'') (Alt (Lit ''service'')
                  (Alt (Lit ''testimonial'') (Alt (Lit ''team'') (Lit ''benefit'')))))) lowerLabel
          then card
        else if regex_test (Alt (Lit ''cta'')
                  (Alt (Seq (Lit ''call'') (Seq (Opt AnyChar) (Seq (Lit ''to'')
                          (Seq (Opt AnyChar) (Lit ''action'')))))
                  (Alt (Lit ''contact'') (Lit ''newsletter'')))) lowerLabel
          then cta
        else if regex_test (Alt (Lit ''nav'') (Lit ''menu'')) lowerLabel then navigation
        else content)"

section \<open>Content hints\<close>

definition isButtonElement :: "Element \<Rightarrow> bool" where
  "isButtonElement el =
     (if tagName el = ''button'' then True
      else if tagName el = ''input'' then
        (attr_type el = Some ''submit'' \<or> attr_type el = Some ''button'')
      else if tagName el = ''a'' then
        (if attr_role el = Some ''button'' then True
         else regex_test_i
                (Seq WordBoundary (Seq (Alt (Lit ''btn'') (Alt (Lit ''button'') (Lit ''cta'')))
                   WordBoundary))
                (className el))
      else False)"

definition isIconElement :: "Element \<Rightarrow> bool" where
  "isIconElement el =
     (if tagName el = ''svg'' then
        (let rect = clientRect el in rect_width rect * rect_height rect \<le> 400)
      else if tagName el = ''i'' \<or> tagName el = ''span'' then
        regex_test_i
          (Seq WordBoundary (Seq (Alt (Lit ''icon'') (Alt (Lit ''fa-'') (Alt (Lit ''bi-'')
             (Lit ''material-icons'')))) WordBoundary))
          (className el)
      else False)"

definition getElementBoundingBox :: "Window \<Rightarrow> Element \<Rightarrow> BoundingBox" where
  "getElementBoundingBox win el =
     (let rect = clientRect el in
      \<lparr>box_x = rect_left rect + scrollX win,
       box_y = rect_top rect + scrollY win,
       box_width = rect_width rect,
       box_height = rect_height rect\<rparr>)"

text \<open>The two variables the closure \<open>addHint\<close> updates.\<close>

record HintState =
  hints :: "ContentHint list"
  counts :: "ContentType \<Rightarrow> nat"

definition addHint ::
  "HintState \<Rightarrow> ContentType \<Rightarrow> BoundingBox \<Rightarrow> string option \<Rightarrow> HintState" where
  "addHint st type box lbl =
     (let minSize = CONTENT_MIN_SIZES type; maxCount = CONTENT_MAX_COUNTS type in
      if box_width box < fst minSize \<or> box_height box < snd minSize then st
      else if counts st type \<ge> maxCount then st
      else \<lparr>hints = hints st @ [\<lparr>hint_type = type, hint_bbox = box, hint_label = lbl\<rparr>],
            counts = (counts st)(type := counts st type + 1)\<rparr>)"

text \<open>The bodies of the loops of \<open>detectContentHintsUnsafe\<close>, one element at a time.\<close>

definition imageStep :: "Window \<Rightarrow> Element \<Rightarrow> HintState \<Rightarrow> HintState" where
  "imageStep win img st =
     (if kind img \<noteq> HTMLElement then st
      else if \<not> isElementVisible img then st
      else addHint st image (getAbsoluteBoundingBox win img) None)"

definition svgImageStep :: "Window \<Rightarrow> Element \<Rightarrow> HintState \<Rightarrow> HintState" where
  "svgImageStep win svg st =
     (if kind svg \<noteq> SVGElement then st
      else
        let rect = clientRect svg in
        if rect_width rect = 0 \<or> rect_height rect = 0 then st
        else if rect_width rect * rect_height rect > 400
          then addHint st image (getElementBoundingBox win svg) None
        else st)"

definition buttonStep :: "Window \<Rightarrow> Element \<Rightarrow> HintState \<Rightarrow> HintState" where
  "buttonStep win btn st =
     (if kind btn \<noteq> HTMLElement then st
      else if \<not> isButtonElement btn then st
      else if \<not> isElementVisible btn then st
      else
        let box = getAbsoluteBoundingBox win btn;
            t = take 20 (trim (textContent btn))
        in addHint st button box (if t = [] then None else Some t))"

definition svgIconStep :: "Window \<Rightarrow> Element \<Rightarrow> HintState \<Rightarrow> HintState" where
  "svgIconStep win svg st =
     (if kind svg \<noteq> SVGElement then st
      else if isIconElement svg then addHint st icon (getElementBoundingBox win svg) None
      else st)"

definition iconFontStep :: "Window \<Rightarrow> Element \<Rightarrow> HintState \<Rightarrow> HintState" where
  "iconFontStep win ic st =
     (if kind ic \<noteq> HTMLElement then st
      else if \<not> isIconElement ic then st
      else if \<not> isElementVisible ic then st
      else addHint st icon (getAbsoluteBoundingBox win ic) None)"

text \<open>
  The box around the text elements seen so far, as (minX, minY, maxX, maxY); \<open>None\<close> is
  the initial (Infinity, Infinity, -Infinity, -Infinity) with \<open>hasVisibleText\<close> false.
\<close>

definition textStep ::
  "Window \<Rightarrow> Element \<Rightarrow> (rat \<times> rat \<times> rat \<times> rat) option \<Rightarrow> (rat \<times> rat \<times> rat \<times> rat) option" where
  "textStep win t acc =
     (if kind t \<noteq> HTMLElement then acc
      else if \<not> isElementVisible t then acc
      else
        let rect = clientRect t in
        if rect_width rect < 20 \<or> rect_height rect < 10 then acc
        else
          let box = getAbsoluteBoundingBox win t in
          case acc of
            None \<Rightarrow>
              Some (box_x box, box_y box, box_x box + box_width box, box_y box + box_height box)
          | Some (minX, minY, maxX, maxY) \<Rightarrow>
              Some (min minX (box_x box), min minY (box_y box),
                    max maxX (box_x box + box_width box), max maxY (box_y box + box_height box)))"

definition isButtonCandidate :: "Element \<Rightarrow> bool" where
  "isButtonCandidate e =
     (tagName e = ''button'' \<or> tagName e = ''a''
      \<or> (tagName e = ''input'' \<and> (attr_type e = Some ''submit'' \<or> attr_type e = Some ''button'')))"

text \<open>The scan of \<open>detectContentHintsUnsafe\<close> where no read of the host fails.\<close>

definition scanContentHints :: "Window \<Rightarrow> Element \<Rightarrow> ContentHint list" where
  "scanContentHints win el =
     (let st0 = \<lparr>hints = [], counts = (\<lambda>t. 0)\<rparr>;
          images = querySelectorAll (hasTag [''img'', ''picture'', ''figure'']) el;
          st1 = fold (imageStep win) images st0;
          svgs = querySelectorAll (hasTag [''svg'']) el;
          st2 = fold (svgImageStep win) svgs st1;
          buttons = querySelectorAll isButtonCandidate el;
          st3 = fold (buttonStep win) buttons st2;
          st4 = fold (svgIconStep win) svgs st3;
          iconFonts = querySelectorAll (hasTag [''i'', ''span'']) el;
          st5 = fold (iconFontStep win) iconFonts st4;
          textElements = querySelectorAll (hasTag [''p'', ''h1'', ''h2'', ''h3'', ''h4'', ''h5'', ''h6'']) el;
          st6 =
            (if length textElements > 0 \<and> counts st5 text_type < CONTENT_MAX_COUNTS text_type then
               (case fold (textStep win) textElements None of
                  None \<Rightarrow> st5
                | Some (minX, minY, maxX, maxY) \<Rightarrow>
                    addHint st5 text_type
                      \<lparr>box_x = minX, box_y = minY, box_width = maxX - minX, box_height = maxY - minY\<rparr>
                      None)
             else st5)
      in hints st6)"

text \<open>
  The source reads a live document, and \<open>detectContentHints\<close> guards against a read
  that throws. \<open>hostFails d\<close> says that reading \<open>d\<close> from the host throws; the scan
  queries the subtree of \<open>el\<close>, so it throws when a read in that subtree does. The reads
  outside the hint extraction are not guarded in the source and are taken not to throw.
\<close>

datatype Exception = HostReadFailure

definition detectContentHintsUnsafe ::
  "(Element \<Rightarrow> bool) \<Rightarrow> Window \<Rightarrow> Element \<Rightarrow> Exception + ContentHint list" where
  "detectContentHintsUnsafe hostFails win el =
     (if list_ex hostFails (el # descendants el) then Inl HostReadFailure
      else Inr (scanContentHints win el))"

definition detectContentHints ::
  "(Element \<Rightarrow> bool) \<Rightarrow> Window \<Rightarrow> Element \<Rightarrow> ContentHint list" where
  "detectContentHints hostFails win el =
     (case detectContentHintsUnsafe hostFails win el of
        Inr result \<Rightarrow> result
      | Inl e \<Rightarrow> [])"

section \<open>The tree builder\<close>

definition bboxesSimilar :: "BoundingBox \<Rightarrow> BoundingBox \<Rightarrow> bool" where
  "bboxesSimilar a b =
     (let areaA = box_width a * box_height a; areaB = box_width b * box_height b in
      areaB > areaA * (85 / 100))"

text \<open>
  The block "Wrapper collapse" of \<open>buildNodeTree\<close>: the child that is returned in place
  of the element, if any.
\<close>

definition wrapperCollapse ::
  "Element \<Rightarrow> BoundingBox \<Rightarrow> WireframeNode list \<Rightarrow> Element list option \<Rightarrow> WireframeNode option" where
  "wrapperCollapse el box childNodes gridItems =
     (case childNodes of
        [child] \<Rightarrow>
          if gridItems \<noteq> None then None
          else if bboxesSimilar box (bbox child) then
            (if \<not> isLandmark el \<and> isLandmarkNode child then Some child
             else
               let myLabel = generateLabel el in
               if myLabel = ''Block'' \<or> myLabel = ''Section'' then
                 (if label child \<noteq> ''Block'' \<and> label child \<noteq> ''Section'' then Some child
                  else None)
               else None)
          else None
      | _ \<Rightarrow> None)"

text \<open>
  The block "Create node for this element" of \<open>buildNodeTree\<close>; \<open>ctr\<close> is the value of
  \<open>nodeIdCounter\<close> before \<open>generateNodeId\<close> increments it.
\<close>

definition createNode ::
  "(Element \<Rightarrow> bool) \<Rightarrow> Window \<Rightarrow> Element \<Rightarrow> BoundingBox \<Rightarrow> nat \<Rightarrow> WireframeNode list \<Rightarrow> bool
     \<Rightarrow> nat \<Rightarrow> WireframeNode" where
  "createNode hostFails win el box d childNodes isGridItem ctr =
     (let lbl = (if isGridItem then inferGridItemLabel el else generateLabel el);
          hs = detectContentHints hostFails win el
      in WireframeNode (ctr + 1) (tagName el) lbl box d childNodes (isLandmark el)
           (if isGridItem then card else getSemanticType el lbl)
           (if length hs > 0 then Some hs else None))"

text \<open>
  \<open>buildNodeTree\<close> threads \<open>nodeIdCounter\<close>: it takes the counter and returns the new
  one with the node (\<open>None\<close> for \<open>null\<close>). \<open>buildNodes\<close> is the loop the source writes
  three times in \<open>buildNodeTree\<close> and once in \<open>analyzeDom\<close>: build each element of a
  list in order and push the nodes that are not \<open>null\<close>.
\<close>

function buildNodeTree ::
  "(Element \<Rightarrow> bool) \<Rightarrow> Window \<Rightarrow> Element \<Rightarrow> nat \<Rightarrow> rat \<Rightarrow> AnalyzerConfig \<Rightarrow> bool \<Rightarrow> nat
     \<Rightarrow> WireframeNode option \<times> nat"
  and buildNodes ::
  "(Element \<Rightarrow> bool) \<Rightarrow> Window \<Rightarrow> Element list \<Rightarrow> nat \<Rightarrow> rat \<Rightarrow> AnalyzerConfig \<Rightarrow> bool \<Rightarrow> nat
     \<Rightarrow> WireframeNode list \<times> nat"
where
  "buildNodeTree hostFails win el d viewportArea config isGridItem ctr =
     (if d > maxDepth config \<and> \<not> isGridItem then (None, ctr)
      else if \<not> isElementVisible el then (None, ctr)
      else
        let box = getAbsoluteBoundingBox win el;
            significant = (isGridItem \<or> isSignificant win el viewportArea config);
            gridItems = (if significant \<and> \<not> isGridItem then detectGridItems el else None);
            (childNodes, ctr') =
              (case gridItems of
                 Some items \<Rightarrow>
                   let (gridNodes, ctr1) =
                         buildNodes hostFails win items (d + 1) viewportArea config True ctr;
                       (landmarkNodes, ctr2) =
                         buildNodes hostFails win
                           (filter (\<lambda>child. kind child = HTMLElement \<and> isLandmark child) (children el))
                           (d + 1) viewportArea config False ctr1
                   in (gridNodes @ landmarkNodes, ctr2)
               | None \<Rightarrow>
                   if \<not> isGridItem then
                     buildNodes hostFails win
                       (filter (\<lambda>child. kind child = HTMLElement) (children el))
                       (if significant then d + 1 else d) viewportArea config False ctr
                   else ([], ctr))
        in
        if \<not> significant then
          (case childNodes of [child] \<Rightarrow> (Some child, ctr') | _ \<Rightarrow> (None, ctr'))
        else
          (case wrapperCollapse el box childNodes gridItems of
             Some child \<Rightarrow> (Some child, ctr')
           | None \<Rightarrow>
               (Some (createNode hostFails win el box d childNodes isGridItem ctr'), ctr' + 1)))"
| "buildNodes hostFails win [] d viewportArea config isGridItem ctr = ([], ctr)"
| "buildNodes hostFails win (child # rest) d viewportArea config isGridItem ctr =
     (let (childNode, ctr1) = buildNodeTree hostFails win child d viewportArea config isGridItem ctr;
          (nodes, ctr2) = buildNodes hostFails win rest d viewportArea config isGridItem ctr1
      in (case childNode of Some n \<Rightarrow> n # nodes | None \<Rightarrow> nodes, ctr2))"
  by pat_completeness auto
termination
proof -
  have filter_le: "size_list f (filter P xs) \<le> size_list f xs"
    for f :: "Element \<Rightarrow> nat" and P xs
    by (induction xs) auto
  have kids: "size_list size (children el) < size el" for el :: Element
    by (cases el) simp
  have grid: "size_list size items \<le> size_list size (children el)"
    if "detectGridItems el = Some items" for el items
    using that
    by (auto simp: detectGridItems_def getVisibleChildren_def Let_def
          split: if_splits intro: order_trans [OF filter_le])
  show ?thesis
    apply (relation "measure (\<lambda>x. case x of
              Inl (h, w, el, r) \<Rightarrow> size el
            | Inr (h, w, els, r) \<Rightarrow> size_list size els)")
    apply (auto simp: le_less_trans [OF filter_le kids]
             split: if_splits
             dest!: sym [of "Some _"] grid
             intro: le_less_trans [OF _ kids])
    done
qed

declare buildNodeTree.simps [simp del]

text \<open>
  \<open>analyzeDom\<close>: \<open>config\<close> is the merged configuration, \<open>body\<close> the element whose
  children are analysed. The page URL, the capture time and the page height are read from
  the host and left out of the model.
\<close>

definition analyzeDom ::
  "(Element \<Rightarrow> bool) \<Rightarrow> Window \<Rightarrow> Element \<Rightarrow> AnalyzerConfig \<Rightarrow> WireframeModel" where
  "analyzeDom hostFails win body config =
     (let viewportWidth = innerWidth win;
          viewportHeight = innerHeight win;
          viewportArea = viewportWidth * viewportHeight;
          (ns, ctr) = buildNodes hostFails win
                        (filter (\<lambda>child. kind child = HTMLElement) (children body))
                        0 viewportArea config False 0
      in \<lparr>nodes = ns, viewport_width = viewportWidth, viewport_height = viewportHeight\<rparr>)"

text \<open>\<open>flattenNodes\<close>, with its inner function \<open>traverse\<close>.\<close>

fun flattenNodes :: "WireframeNode list \<Rightarrow> WireframeNode list"
  and traverse :: "WireframeNode \<Rightarrow> WireframeNode list" where
  "flattenNodes [] = []"
| "flattenNodes (n # ns) = traverse n @ flattenNodes ns"
| "traverse (WireframeNode i t l b d cs lm st h) =
     WireframeNode i t l b d cs lm st h # flattenNodes cs"

section \<open>Notions of the specification\<close>

text \<open>
  The hints of one type in a hint list, and the minimum size of its type met by a hint.
\<close>

definition hintsOfType :: "ContentType \<Rightarrow> ContentHint list \<Rightarrow> ContentHint list" where
  "hintsOfType t hs = filter (\<lambda>h. hint_type h = t) hs"

definition meetsMinSize :: "ContentHint \<Rightarrow> bool" where
  "meetsMinSize h =
     (fst (CONTENT_MIN_SIZES (hint_type h)) \<le> box_width (hint_bbox h)
      \<and> snd (CONTENT_MIN_SIZES (hint_type h)) \<le> box_height (hint_bbox h))"

text \<open>
  Following the specification: a qualifying image descendant is a visible img, picture or
  figure of at least 30 by 30, or a vector graphic with an area above 400 and at least 30
  by 30. The two kinds apart, and the image hint of an element.
\<close>

definition qualifiesAsImage :: "Element \<Rightarrow> bool" where
  "qualifiesAsImage e =
     (hasTag [''img'', ''picture'', ''figure''] e \<and> kind e = HTMLElement \<and> isElementVisible e
      \<and> 30 \<le> rect_width (clientRect e) \<and> 30 \<le> rect_height (clientRect e))"

definition qualifiesAsSvgImage :: "Element \<Rightarrow> bool" where
  "qualifiesAsSvgImage e =
     (hasTag [''svg''] e \<and> kind e = SVGElement
      \<and> rect_width (clientRect e) \<noteq> 0 \<and> rect_height (clientRect e) \<noteq> 0
      \<and> rect_width (clientRect e) * rect_height (clientRect e) > 400
      \<and> 30 \<le> rect_width (clientRect e) \<and> 30 \<le> rect_height (clientRect e))"

definition imageHintOf :: "Window \<Rightarrow> Element \<Rightarrow> ContentHint" where
  "imageHintOf win e =
     \<lparr>hint_type = image, hint_bbox = getAbsoluteBoundingBox win e, hint_label = None\<rparr>"

text \<open>
  What the loops of the hint scan keep true of the closure's variables: each count is
  the number of hints of its type, no count is above its maximum, and every hint meets
  the minimum size of its type.
\<close>

definition hintStateOk :: "HintState \<Rightarrow> bool" where
  "hintStateOk st =
     ((\<forall>t. counts st t = length (hintsOfType t (hints st)))
      \<and> (\<forall>t. counts st t \<le> CONTENT_MAX_COUNTS t)
      \<and> (\<forall>h \<in> set (hints st). meetsMinSize h))"







section \<open>Concrete pages\<close>

text \<open>
  Elements of the pages the properties are evaluated on: visible, with the given display
  and flex direction; a host on which no read fails; a window of 1280 by 800 that is
  not scrolled.
\<close>

definition visibleStyle :: "string \<Rightarrow> string \<Rightarrow> CSSStyle" where
  "visibleStyle display direction =
     \<lparr>style_display = display, style_visibility = ''visible'', style_opacity = 1,
      style_flexDirection = direction\<rparr>"

definition domRect :: "rat \<Rightarrow> rat \<Rightarrow> rat \<Rightarrow> rat \<Rightarrow> DOMRect" where
  "domRect l t w h = \<lparr>rect_left = l, rect_top = t, rect_width = w, rect_height = h\<rparr>"

definition blockElement ::
  "string \<Rightarrow> string \<Rightarrow> string \<Rightarrow> string option \<Rightarrow> DOMRect \<Rightarrow> Element list \<Rightarrow> Element" where
  "blockElement tag ident cls role r cs =
     Element HTMLElement tag ident cls role None [] (visibleStyle ''block'' ''row'') r cs"


definition desktop :: Window where
  "desktop = \<lparr>innerWidth = 1280, innerHeight = 800, scrollX = 0, scrollY = 0\<rparr>"

definition noFailure :: "Element \<Rightarrow> bool" where
  "noFailure e = False"


text \<open>
  The page of the end-to-end scenario: a header with the id \<open>header\<close>, in it a nav with
  the role \<open>navigation\<close>, in it a link of class \<open>btn\<close> with the text \<open>Contact\<close>.
\<close>

definition scenario_link :: Element where
  "scenario_link = Element HTMLElement ''a'' [] ''btn'' None None ''Contact''
     (visibleStyle ''inline'' ''row'') (domRect 1100 20 120 40) []"

definition scenario_nav :: Element where
  "scenario_nav = Element HTMLElement ''nav'' [] [] (Some ''navigation'') None ''Contact''
     (visibleStyle ''block'' ''row'') (domRect 0 0 1280 80) [scenario_link]"

definition scenario_header :: Element where
  "scenario_header = Element HTMLElement ''header'' ''header'' [] None None ''Contact''
     (visibleStyle ''block'' ''row'') (domRect 0 0 1280 80) [scenario_nav]"

definition scenario_body :: Element where
  "scenario_body = Element HTMLElement ''body'' [] [] None None ''Contact''
     (visibleStyle ''block'' ''row'') (domRect 0 0 1280 80) [scenario_header]"

text \<open>
  A div with the role \<open>navigation\<close>, no class, and an id of 29 characters.
\<close>

definition longId_div :: Element where
  "longId_div = blockElement ''div'' ''main-navigation-wrapper-outer'' [] (Some ''navigation'')
     (domRect 0 0 1280 80) []"












text \<open>
  A page whose main holds a div of class \<open>page\<close>, and in it a section of class
  \<open>hero\<close> that covers 90% of the div.
\<close>

definition collapse_section :: Element where
  "collapse_section = blockElement ''section'' [] ''hero'' None (domRect 0 0 1280 900) []"

definition collapse_div :: Element where
  "collapse_div = blockElement ''div'' [] ''page'' None (domRect 0 0 1280 1000) [collapse_section]"

definition collapse_main :: Element where
  "collapse_main = blockElement ''main'' [] [] None (domRect 0 0 1280 2000) [collapse_div]"

definition collapse_body :: Element where
  "collapse_body = blockElement ''body'' [] [] None (domRect 0 0 1280 2000) [collapse_main]"










text \<open>
  A div that holds a vector graphic of 50 by 50 and then six img elements of 40 by 40,
  and a div that holds seven img elements of 40 by 40.
\<close>

definition img40 :: "rat \<Rightarrow> Element" where
  "img40 l = Element HTMLElement ''img'' [] [] None None [] (visibleStyle ''inline'' ''row'')
               (domRect l 0 40 40) []"

definition svg50 :: Element where
  "svg50 = Element SVGElement ''svg'' [] [] None None [] (visibleStyle ''inline'' ''row'')
             (domRect 0 0 50 50) []"

definition svg_first_div :: Element where
  "svg_first_div = blockElement ''div'' [] [] None (domRect 0 0 1280 600)
     [svg50, img40 100, img40 200, img40 300, img40 400, img40 500, img40 600]"

definition seven_img_div :: Element where
  "seven_img_div = blockElement ''div'' [] [] None (domRect 0 0 1280 600)
     [img40 0, img40 100, img40 200, img40 300, img40 400, img40 500, img40 600]"






section \<open>Properties\<close>

subsection \<open>Facts about the tree builder\<close>

lemma buildNodeTree_stop:
  "(d > maxDepth cfg \<and> \<not> g) \<or> \<not> isElementVisible el \<Longrightarrow>
   buildNodeTree h win el d va cfg g ctr = (None, ctr)"
  by (subst buildNodeTree.simps) auto

lemma wrapperCollapse_Nil: "wrapperCollapse el box [] gi = None"
  by (simp add: wrapperCollapse_def)

lemma wrapperCollapse_grid: "wrapperCollapse el box cs (Some items) = None"
  by (simp add: wrapperCollapse_def split: list.splits)

lemma buildNodeTree_gridItem:
  "isElementVisible el \<Longrightarrow>
   buildNodeTree h win el d va cfg True ctr =
     (Some (createNode h win el (getAbsoluteBoundingBox win el) d [] True ctr), ctr + 1)"
  by (subst buildNodeTree.simps) (simp add: wrapperCollapse_Nil)

lemma buildNodeTree_insignificant:
  "\<lbrakk>d \<le> maxDepth cfg; isElementVisible el; \<not> isSignificant win el va cfg\<rbrakk> \<Longrightarrow>
   buildNodeTree h win el d va cfg False ctr =
     (case buildNodes h win (filter (\<lambda>child. kind child = HTMLElement) (children el)) d va cfg False ctr of
        (cs, c') \<Rightarrow> (case cs of [child] \<Rightarrow> Some child | _ \<Rightarrow> None, c'))"
  by (subst buildNodeTree.simps) (simp add: Let_def split: prod.splits list.splits)

lemma buildNodeTree_plain:
  "\<lbrakk>d \<le> maxDepth cfg; isElementVisible el; isSignificant win el va cfg; detectGridItems el = None\<rbrakk> \<Longrightarrow>
   buildNodeTree h win el d va cfg False ctr =
     (case buildNodes h win (filter (\<lambda>child. kind child = HTMLElement) (children el)) (d + 1) va cfg False ctr of
        (cs, c') \<Rightarrow>
          (case wrapperCollapse el (getAbsoluteBoundingBox win el) cs None of
             Some child \<Rightarrow> (Some child, c')
           | None \<Rightarrow> (Some (createNode h win el (getAbsoluteBoundingBox win el) d cs False c'), c' + 1)))"
  by (subst buildNodeTree.simps) (simp add: Let_def split: prod.splits list.splits)

lemma buildNodeTree_grid:
  "\<lbrakk>d \<le> maxDepth cfg; isElementVisible el; isSignificant win el va cfg; detectGridItems el = Some items\<rbrakk> \<Longrightarrow>
   buildNodeTree h win el d va cfg False ctr =
     (case buildNodes h win items (d + 1) va cfg True ctr of
        (gs, c1) \<Rightarrow>
          (case buildNodes h win (filter (\<lambda>child. kind child = HTMLElement \<and> isLandmark child) (children el))
                  (d + 1) va cfg False c1 of
             (ls, c2) \<Rightarrow>
               (Some (createNode h win el (getAbsoluteBoundingBox win el) d (gs @ ls) False c2), c2 + 1)))"
  by (subst buildNodeTree.simps) (simp add: Let_def wrapperCollapse_grid split: prod.splits list.splits)

lemma build_induct [case_names node nil cons]:
  fixes P :: "Element \<Rightarrow> nat \<Rightarrow> bool \<Rightarrow> nat \<Rightarrow> bool"
    and Q :: "Element list \<Rightarrow> nat \<Rightarrow> bool \<Rightarrow> nat \<Rightarrow> bool"
  assumes node: "\<And>el d g ctr.
      \<lbrakk>\<And>items. \<lbrakk>\<not> g; d \<le> maxDepth cfg; isElementVisible el; isSignificant win el va cfg;
                 detectGridItems el = Some items\<rbrakk> \<Longrightarrow> Q items (d + 1) True ctr;
       \<And>items gs c1. \<lbrakk>\<not> g; d \<le> maxDepth cfg; isElementVisible el; isSignificant win el va cfg;
                 detectGridItems el = Some items;
                 buildNodes h win items (d + 1) va cfg True ctr = (gs, c1)\<rbrakk> \<Longrightarrow>
           Q (filter (\<lambda>child. kind child = HTMLElement \<and> isLandmark child) (children el)) (d + 1) False c1;
       \<lbrakk>\<not> g; d \<le> maxDepth cfg; isElementVisible el; isSignificant win el va cfg;
        detectGridItems el = None\<rbrakk> \<Longrightarrow>
           Q (filter (\<lambda>child. kind child = HTMLElement) (children el)) (d + 1) False ctr;
       \<lbrakk>\<not> g; d \<le> maxDepth cfg; isElementVisible el; \<not> isSignificant win el va cfg\<rbrakk> \<Longrightarrow>
           Q (filter (\<lambda>child. kind child = HTMLElement) (children el)) d False ctr\<rbrakk>
      \<Longrightarrow> P el d g ctr"
    and nil: "\<And>d g ctr. Q [] d g ctr"
    and cons: "\<And>c cs d g ctr.
      \<lbrakk>P c d g ctr; \<And>r c1. buildNodeTree h win c d va cfg g ctr = (r, c1) \<Longrightarrow> Q cs d g c1\<rbrakk>
      \<Longrightarrow> Q (c # cs) d g ctr"
  shows "P el d g ctr" and "Q els d g ctr"
proof -
  have "(h' = h \<longrightarrow> win' = win \<longrightarrow> va' = va \<longrightarrow> cfg' = cfg \<longrightarrow> P el d g ctr)"
    and "(h'' = h \<longrightarrow> win'' = win \<longrightarrow> va'' = va \<longrightarrow> cfg'' = cfg \<longrightarrow> Q els d g ctr)"
    for h' win' va' cfg' h'' win'' va'' cfg''
  proof (induction h' win' el d va' cfg' g ctr and h'' win'' els d va'' cfg'' g ctr
         rule: buildNodeTree_buildNodes.induct)
    case (1 hostFails win' el d viewportArea config isGridItem ctr)
    show ?case
    proof (intro impI)
      assume e: "hostFails = h" "win' = win" "viewportArea = va" "config = cfg"
      show "P el d isGridItem ctr"
      proof (rule node)
        fix items
        assume "\<not> isGridItem" "d \<le> maxDepth cfg" "isElementVisible el" "isSignificant win el va cfg"
          "detectGridItems el = Some items"
        then show "Q items (d + 1) True ctr"
          using "1.IH"(2) [of _ _ _ items] e by simp
      next
        fix items gs c1
        assume "\<not> isGridItem" "d \<le> maxDepth cfg" "isElementVisible el" "isSignificant win el va cfg"
          "detectGridItems el = Some items" "buildNodes h win items (d + 1) va cfg True ctr = (gs, c1)"
        then show "Q (filter (\<lambda>child. kind child = HTMLElement \<and> isLandmark child) (children el)) (d + 1) False c1"
          using "1.IH"(3) [of _ _ _ items _ gs c1] e by simp
      next
        assume "\<not> isGridItem" "d \<le> maxDepth cfg" "isElementVisible el" "isSignificant win el va cfg"
          "detectGridItems el = None"
        then show "Q (filter (\<lambda>child. kind child = HTMLElement) (children el)) (d + 1) False ctr"
          using "1.IH"(1) e by simp
      next
        assume "\<not> isGridItem" "d \<le> maxDepth cfg" "isElementVisible el" "\<not> isSignificant win el va cfg"
        then show "Q (filter (\<lambda>child. kind child = HTMLElement) (children el)) d False ctr"
          using "1.IH"(1) e by simp
      qed
    qed
  next
    case (2 hostFails win d viewportArea config isGridItem ctr)
    show ?case by (simp add: nil)
  next
    case (3 hostFails win' child rest d viewportArea config isGridItem ctr)
    show ?case
    proof (intro impI)
      assume e: "hostFails = h" "win' = win" "viewportArea = va" "config = cfg"
      show "Q (child # rest) d isGridItem ctr"
      proof (rule cons)
        show "P child d isGridItem ctr" using "3.IH"(1) e by simp
      next
        fix r c1
        assume "buildNodeTree h win child d va cfg isGridItem ctr = (r, c1)"
        then show "Q rest d isGridItem c1"
          using "3.IH"(2) [of _ r c1] e by simp
      qed
    qed
  qed
  then show "P el d g ctr" and "Q els d g ctr" by blast+
qed

lemma buildNodeTree_Some_cases [consumes 1, case_names gridItem grid created collapsed promoted]:
  assumes "buildNodeTree h win el d va cfg g ctr = (Some n, c')"
  obtains
    (gridItem) "g" "isElementVisible el"
      "n = createNode h win el (getAbsoluteBoundingBox win el) d [] True ctr" "c' = ctr + 1"
  | (grid) items gs c1 ls c2 where
      "\<not> g" "d \<le> maxDepth cfg" "isElementVisible el" "isSignificant win el va cfg"
      "detectGridItems el = Some items"
      "buildNodes h win items (d + 1) va cfg True ctr = (gs, c1)"
      "buildNodes h win (filter (\<lambda>child. kind child = HTMLElement \<and> isLandmark child) (children el))
         (d + 1) va cfg False c1 = (ls, c2)"
      "n = createNode h win el (getAbsoluteBoundingBox win el) d (gs @ ls) False c2" "c' = c2 + 1"
  | (created) cs c1 where
      "\<not> g" "d \<le> maxDepth cfg" "isElementVisible el" "isSignificant win el va cfg"
      "detectGridItems el = None"
      "buildNodes h win (filter (\<lambda>child. kind child = HTMLElement) (children el)) (d + 1) va cfg False ctr
         = (cs, c1)"
      "wrapperCollapse el (getAbsoluteBoundingBox win el) cs None = None"
      "n = createNode h win el (getAbsoluteBoundingBox win el) d cs False c1" "c' = c1 + 1"
  | (collapsed)
      "\<not> g" "d \<le> maxDepth cfg" "isElementVisible el" "isSignificant win el va cfg"
      "detectGridItems el = None"
      "buildNodes h win (filter (\<lambda>child. kind child = HTMLElement) (children el)) (d + 1) va cfg False ctr
         = ([n], c')"
      "wrapperCollapse el (getAbsoluteBoundingBox win el) [n] None = Some n"
  | (promoted)
      "\<not> g" "d \<le> maxDepth cfg" "isElementVisible el" "\<not> isSignificant win el va cfg"
      "buildNodes h win (filter (\<lambda>child. kind child = HTMLElement) (children el)) d va cfg False ctr
         = ([n], c')"
proof (cases "(d > maxDepth cfg \<and> \<not> g) \<or> \<not> isElementVisible el")
  case True
  then show ?thesis using assms by (simp add: buildNodeTree_stop)
next
  case vis: False
  show ?thesis
  proof (cases g)
    case True
    then show ?thesis using assms vis gridItem by (auto simp: buildNodeTree_gridItem)
  next
    case ng: False
    show ?thesis
    proof (cases "isSignificant win el va cfg")
      case False
      then show ?thesis
        using assms vis ng promoted
        by (auto simp: buildNodeTree_insignificant split: prod.splits list.splits)
    next
      case sig: True
      show ?thesis
      proof (cases "detectGridItems el")
        case None
        obtain cs c1 where b: "buildNodes h win (filter (\<lambda>child. kind child = HTMLElement) (children el))
            (d + 1) va cfg False ctr = (cs, c1)"
          by (cases "buildNodes h win (filter (\<lambda>child. kind child = HTMLElement) (children el))
            (d + 1) va cfg False ctr") auto
        show ?thesis
        proof (cases "wrapperCollapse el (getAbsoluteBoundingBox win el) cs None")
          case wc: None
          then show ?thesis
            using assms vis ng sig None b created [of cs c1]
            by (auto simp: buildNodeTree_plain)
        next
          case (Some child)
          then have "cs = [child]"
            by (auto simp: wrapperCollapse_def Let_def split: list.splits if_splits)
          then show ?thesis
            using assms vis ng sig None b Some collapsed
            by (auto simp: buildNodeTree_plain)
        qed
      next
        case (Some items)
        obtain gs c1 where b1: "buildNodes h win items (d + 1) va cfg True ctr = (gs, c1)"
          by (cases "buildNodes h win items (d + 1) va cfg True ctr") auto
        obtain ls c2 where b2: "buildNodes h win
            (filter (\<lambda>child. kind child = HTMLElement \<and> isLandmark child) (children el))
            (d + 1) va cfg False c1 = (ls, c2)"
          by (cases "buildNodes h win
            (filter (\<lambda>child. kind child = HTMLElement \<and> isLandmark child) (children el))
            (d + 1) va cfg False c1") auto
        show ?thesis
          using assms vis ng sig Some b1 b2 grid [of items gs c1 ls c2]
          by (auto simp: buildNodeTree_grid)
      qed
    qed
  qed
qed

lemma buildNodes_Cons:
  "buildNodes h win (c # cs) d va cfg g ctr =
     (case buildNodeTree h win c d va cfg g ctr of
        (r, c1) \<Rightarrow> (case buildNodes h win cs d va cfg g c1 of
           (ns, c2) \<Rightarrow> ((case r of Some n \<Rightarrow> [n] | None \<Rightarrow> []) @ ns, c2)))"
  by (simp add: Let_def split: prod.splits option.splits)

lemma build_invariant:
  assumes step: "\<And>el d cs g ctr. list_all G cs \<Longrightarrow>
                   G (createNode h win el (getAbsoluteBoundingBox win el) d cs g ctr)"
  shows "\<forall>n c'. buildNodeTree h win el d va cfg g ctr = (Some n, c') \<longrightarrow> G n"
    and "\<forall>ns c'. buildNodes h win els d va cfg g ctr = (ns, c') \<longrightarrow> list_all G ns"
proof (induction el d g ctr and els d g ctr
       rule: build_induct [where h = h and win = win and va = va and cfg = cfg])
  case (node el d g ctr)
  show ?case
  proof (intro allI impI)
    fix n c'
    assume "buildNodeTree h win el d va cfg g ctr = (Some n, c')"
    then show "G n"
    proof (cases rule: buildNodeTree_Some_cases)
      case gridItem
      show ?thesis
        unfolding gridItem(3) by (rule step) simp
    next
      case (grid items gs c1 ls c2)
      have "list_all G gs"
        using node(1) [OF grid(1-5)] grid(6) by blast
      moreover have "list_all G ls"
        using node(2) [OF grid(1-6)] grid(7) by blast
      ultimately show ?thesis
        unfolding grid(8) by (intro step) simp
    next
      case (created cs c1)
      have "list_all G cs"
        using node(3) [OF created(1-5)] created(6) by blast
      then show ?thesis
        unfolding created(8) by (rule step)
    next
      case collapsed
      have "list_all G [n]"
        using node(3) [OF collapsed(1-5)] collapsed(6) by blast
      then show ?thesis by simp
    next
      case promoted
      have "list_all G [n]"
        using node(4) [OF promoted(1-4)] promoted(5) by blast
      then show ?thesis by simp
    qed
  qed
next
  case (nil d g ctr)
  show ?case by simp
next
  case (cons c cs d g ctr)
  show ?case
  proof (intro allI impI)
    fix ns c'
    assume a: "buildNodes h win (c # cs) d va cfg g ctr = (ns, c')"
    obtain r c1 where r: "buildNodeTree h win c d va cfg g ctr = (r, c1)"
      by (cases "buildNodeTree h win c d va cfg g ctr") auto
    obtain ms c2 where ms: "buildNodes h win cs d va cfg g c1 = (ms, c2)"
      by (cases "buildNodes h win cs d va cfg g c1") auto
    from a r ms have ns: "ns = (case r of Some n \<Rightarrow> [n] | None \<Rightarrow> []) @ ms"
      by (simp add: buildNodes_Cons del: buildNodes.simps)
    have "list_all G ms"
      using cons(2) [OF r] ms by blast
    moreover have "list_all G (case r of Some n \<Rightarrow> [n] | None \<Rightarrow> [])"
      using cons(1) r by (cases r) auto
    ultimately show "list_all G ns"
      using ns by simp
  qed
qed

lemma traverse_eq: "traverse n = n # flattenNodes (node_children n)"
  by (cases n) simp

lemma flattenNodes_set: "set (flattenNodes ns) = (\<Union>n \<in> set ns. set (traverse n))"
  by (induction ns) auto

lemma createNode_sel:
  "node_children (createNode h win el box d cs g ctr) = cs"
  "depth (createNode h win el box d cs g ctr) = d"
  "node_tagName (createNode h win el box d cs g ctr) = tagName el"
  "bbox (createNode h win el box d cs g ctr) = box"
  "isLandmarkNode (createNode h win el box d cs g ctr) = isLandmark el"
  "node_id (createNode h win el box d cs g ctr) = ctr + 1"
  "label (createNode h win el box d cs g ctr) = (if g then inferGridItemLabel el else generateLabel el)"
  "contentHints (createNode h win el box d cs g ctr) \<noteq> Some []"
  by (simp_all add: createNode_def Let_def)

lemma hints_invariant:
  "buildNodes h win els d va cfg g ctr = (ns, c') \<Longrightarrow>
   \<forall>m \<in> set (flattenNodes ns). contentHints m \<noteq> Some []"
proof -
  let ?G = "\<lambda>n. \<forall>m \<in> set (traverse n). contentHints m \<noteq> Some []"
  have "\<forall>ns c'. buildNodes h win els d va cfg g ctr = (ns, c') \<longrightarrow> list_all ?G ns"
    by (rule build_invariant(2))
       (auto simp: traverse_eq [of "createNode _ _ _ _ _ _ _ _"] createNode_sel flattenNodes_set list_all_iff)
  then show "buildNodes h win els d va cfg g ctr = (ns, c') \<Longrightarrow> ?thesis"
    by (auto simp: flattenNodes_set list_all_iff)
qed

subsection \<open>The end-to-end scenario\<close>

lemma scenario_nodes:
  "nodes (analyzeDom noFailure desktop scenario_body DEFAULT_CONFIG) =
     [WireframeNode 2 ''header'' ''Header''
        \<lparr>box_x = 0, box_y = 0, box_width = 1280, box_height = 80\<rparr> 0
        [WireframeNode 1 ''nav'' ''Navigation''
           \<lparr>box_x = 0, box_y = 0, box_width = 1280, box_height = 80\<rparr> 1 [] True navigation
           (Some [\<lparr>hint_type = button,
                    hint_bbox = \<lparr>box_x = 1100, box_y = 20, box_width = 120, box_height = 40\<rparr>,
                    hint_label = Some ''Contact''\<rparr>])]
        True header
        (Some [\<lparr>hint_type = button,
                 hint_bbox = \<lparr>box_x = 1100, box_y = 20, box_width = 120, box_height = 40\<rparr>,
                 hint_label = Some ''Contact''\<rparr>])]"
  by code_simp

text \<open>
  C9. For the page of the scenario, in a window of 1280 by 800, the analyzer returns
  exactly one root node: tag \<open>header\<close>, label \<open>Header\<close>, semantic type \<open>header\<close>, a
  landmark, at depth 0. It has exactly one child: tag \<open>nav\<close>, label \<open>Navigation\<close>,
  semantic type \<open>navigation\<close>, a landmark, at depth 1, without children, whose content
  hints are exactly one button hint with the label \<open>Contact\<close> and the box
  (1100, 20, 120, 40). (The link is a descendant of the header too, so the header carries
  the same hint.)
\<close>

theorem end_to_end_scenario:
  "nodes (analyzeDom noFailure desktop scenario_body DEFAULT_CONFIG) =
     [WireframeNode 2 ''header'' ''Header''
        \<lparr>box_x = 0, box_y = 0, box_width = 1280, box_height = 80\<rparr> 0
        [WireframeNode 1 ''nav'' ''Navigation''
           \<lparr>box_x = 0, box_y = 0, box_width = 1280, box_height = 80\<rparr> 1 [] True navigation
           (Some [\<lparr>hint_type = button,
                    hint_bbox = \<lparr>box_x = 1100, box_y = 20, box_width = 120, box_height = 40\<rparr>,
                    hint_label = Some ''Contact''\<rparr>])]
        True header
        (Some [\<lparr>hint_type = button,
                 hint_bbox = \<lparr>box_x = 1100, box_y = 20, box_width = 120, box_height = 40\<rparr>,
                 hint_label = Some ''Contact''\<rparr>])]"
  by (rule scenario_nodes)

subsection \<open>The id step of the label cascade\<close>

lemma longId_div_facts:
  "getClassLabel longId_div = None
   \<and> elem_id longId_div = ''main-navigation-wrapper-outer''
   \<and> labelFromRole longId_div = ''Navigation''"
  by code_simp

lemma longId_label:
  "labelFromId ''main-navigation-wrapper-outer'' = ''Main navigation wrapper outer''"
  by code_simp

text \<open>
  C8, as stated, fails: the claim bounds the length of the id by the interval [3,29), the
  source tests \<open>id.length > 2 && id.length < 30\<close>. For the div with the id
  \<open>main-navigation-wrapper-outer\<close> (29 characters), no class and the role
  \<open>navigation\<close>, the class patterns do not match and the length is outside [3,29), yet
  the label comes from the id step and is not the label \<open>Navigation\<close> of the ARIA-role
  step.
\<close>

theorem id_step_length_29_counterexample:
  "getClassLabel longId_div = None
   \<and> length (elem_id longId_div) = 29
   \<and> generateLabel longId_div = labelFromId (elem_id longId_div)
   \<and> generateLabel longId_div = ''Main navigation wrapper outer''
   \<and> labelFromRole longId_div = ''Navigation''"
  by (simp add: generateLabel_def longId_div_facts longId_label)

text \<open>
  C8, amended: the id step (the pattern table on the id, else the humanized id) is taken
  exactly when the class patterns did not match and the length of the id is in [3,30),
  that is 3 to 29 characters; for any other length the cascade goes on with the
  ARIA-role step.
\<close>

theorem generateLabel_id_step:
  "generateLabel el =
     (case getClassLabel el of
        Some classLabel \<Rightarrow> classLabel
      | None \<Rightarrow>
          if 3 \<le> length (elem_id el) \<and> length (elem_id el) < 30
          then labelFromId (elem_id el)
          else labelFromRole el)"
  by (cases "elem_id el") (auto simp: generateLabel_def Let_def split: option.splits)

theorem generateLabel_id_step_witness:
  "getClassLabel longId_div = None
   \<and> length (elem_id longId_div) = 29
   \<and> generateLabel longId_div = labelFromId (elem_id longId_div)"
  using generateLabel_id_step [of longId_div] by (simp add: longId_div_facts)

subsection \<open>Content hints of a node\<close>

text \<open>
  C10. In every node of the tree the analyzer returns (every node that \<open>flattenNodes\<close>
  lists), the field \<open>contentHints\<close> is absent or a non-empty list: it is never the
  empty list.
\<close>

theorem contentHints_never_empty:
  "n \<in> set (flattenNodes (nodes (analyzeDom hostFails win body config))) \<Longrightarrow>
   contentHints n \<noteq> Some []"
  using hints_invariant [of hostFails win
      "filter (\<lambda>child. kind child = HTMLElement) (children body)" 0
      "innerWidth win * innerHeight win" config False 0]
  by (auto simp: analyzeDom_def Let_def split: prod.splits)

theorem contentHints_never_empty_witness:
  "WireframeNode 1 ''nav'' ''Navigation''
     \<lparr>box_x = 0, box_y = 0, box_width = 1280, box_height = 80\<rparr> 1 [] True navigation
     (Some [\<lparr>hint_type = button,
              hint_bbox = \<lparr>box_x = 1100, box_y = 20, box_width = 120, box_height = 40\<rparr>,
              hint_label = Some ''Contact''\<rparr>])
   \<in> set (flattenNodes (nodes (analyzeDom noFailure desktop scenario_body DEFAULT_CONFIG)))
   \<and> contentHints (WireframeNode 1 ''nav'' ''Navigation''
     \<lparr>box_x = 0, box_y = 0, box_width = 1280, box_height = 80\<rparr> 1 [] True navigation
     (Some [\<lparr>hint_type = button,
              hint_bbox = \<lparr>box_x = 1100, box_y = 20, box_width = 120, box_height = 40\<rparr>,
              hint_label = Some ''Contact''\<rparr>])) \<noteq> Some []"
proof -
  have m: "WireframeNode 1 ''nav'' ''Navigation''
     \<lparr>box_x = 0, box_y = 0, box_width = 1280, box_height = 80\<rparr> 1 [] True navigation
     (Some [\<lparr>hint_type = button,
              hint_bbox = \<lparr>box_x = 1100, box_y = 20, box_width = 120, box_height = 40\<rparr>,
              hint_label = Some ''Contact''\<rparr>])
   \<in> set (flattenNodes (nodes (analyzeDom noFailure desktop scenario_body DEFAULT_CONFIG)))"
    by (simp add: scenario_nodes)
  show ?thesis
    using contentHints_never_empty [OF m] m by simp
qed

subsection \<open>Failures of the hint extraction\<close>







subsection \<open>Landmarks\<close>









subsection \<open>Depth of a collapsed child\<close>

text \<open>
  C2 at the page main > div.page > section.hero: the div is significant (a div with a
  class that is not generic, above 10% of the viewport) and is built at depth 1, its only
  child node is the section, a landmark built at depth 2 that covers 90% of the div, so
  wrapper collapse returns the section in place of the div. The returned tree has the
  edge main (depth 0) to section (depth 2): the depth of the child is not the depth of
  the parent plus 1.
\<close>

theorem collapsed_child_keeps_deeper_depth:
  "nodes (analyzeDom noFailure desktop collapse_body DEFAULT_CONFIG) =
     [WireframeNode 2 ''main'' ''Main Content''
        \<lparr>box_x = 0, box_y = 0, box_width = 1280, box_height = 2000\<rparr> 0
        [WireframeNode 1 ''section'' ''Hero''
           \<lparr>box_x = 0, box_y = 0, box_width = 1280, box_height = 900\<rparr> 2 [] True hero None]
        True content None]"
  by code_simp

subsection \<open>Wrapper collapse\<close>








subsection \<open>Order of siblings\<close>

















subsection \<open>Caps and sizes of content hints\<close>

lemma take_take_append: "take n (take n xs @ ys) = take n (xs @ ys)"
  by (cases "length xs \<le> n") (simp_all add: min_def)

lemma hintStateOk_init: "hintStateOk \<lparr>hints = [], counts = (\<lambda>t. 0)\<rparr>"
  by (simp add: hintStateOk_def hintsOfType_def)

lemma addHint_ok: "hintStateOk st \<Longrightarrow> hintStateOk (addHint st t b l)"
  unfolding hintStateOk_def addHint_def Let_def
  by (auto simp: hintsOfType_def meetsMinSize_def not_less Suc_le_eq le_less_trans)

lemma fold_ok:
  assumes "\<And>x s. hintStateOk s \<Longrightarrow> hintStateOk (f x s)"
  shows "hintStateOk st \<Longrightarrow> hintStateOk (fold f xs st)"
  by (induction xs arbitrary: st) (auto intro: assms)

lemma steps_ok:
  "hintStateOk st \<Longrightarrow> hintStateOk (imageStep win e st)"
  "hintStateOk st \<Longrightarrow> hintStateOk (svgImageStep win e st)"
  "hintStateOk st \<Longrightarrow> hintStateOk (buttonStep win e st)"
  "hintStateOk st \<Longrightarrow> hintStateOk (svgIconStep win e st)"
  "hintStateOk st \<Longrightarrow> hintStateOk (iconFontStep win e st)"
  by (simp_all add: imageStep_def svgImageStep_def buttonStep_def svgIconStep_def iconFontStep_def
        Let_def addHint_ok)

lemma addHint_image:
  assumes "hintStateOk st"
  shows "hintsOfType image (hints (addHint st image b None)) =
         take 5 (hintsOfType image (hints st)
                 @ (if 30 \<le> box_width b \<and> 30 \<le> box_height b
                    then [\<lparr>hint_type = image, hint_bbox = b, hint_label = None\<rparr>] else []))"
proof -
  have c: "counts st image = length (hintsOfType image (hints st))" "counts st image \<le> 5"
    using assms unfolding hintStateOk_def by (auto dest: spec [of _ image])
  show ?thesis
    using c by (auto simp: addHint_def Let_def hintsOfType_def not_less)
qed

lemma addHint_other:
  "t \<noteq> image \<Longrightarrow> hintsOfType image (hints (addHint st t b l)) = hintsOfType image (hints st)"
  by (simp add: addHint_def Let_def hintsOfType_def)

lemma fold_imageStep:
  "hintStateOk st \<Longrightarrow>
   hintsOfType image (hints (fold (imageStep win) xs st)) =
   take 5 (hintsOfType image (hints st)
           @ map (imageHintOf win)
               (filter (\<lambda>e. kind e = HTMLElement \<and> isElementVisible e
                          \<and> 30 \<le> rect_width (clientRect e) \<and> 30 \<le> rect_height (clientRect e)) xs))"
proof (induction xs arbitrary: st)
  case Nil
  then have "length (hintsOfType image (hints st)) \<le> 5"
    unfolding hintStateOk_def by (metis CONTENT_MAX_COUNTS.simps(1))
  then show ?case by simp
next
  case (Cons x xs)
  have ok: "hintStateOk (imageStep win x st)"
    using Cons.prems by (rule steps_ok)
  show ?case
    using Cons.IH [OF ok] addHint_image [OF Cons.prems, of "getAbsoluteBoundingBox win x"]
    by (auto simp: imageStep_def imageHintOf_def getAbsoluteBoundingBox_def Let_def take_take_append
             simp del: take_append)
qed

lemma fold_svgImageStep:
  "hintStateOk st \<Longrightarrow>
   hintsOfType image (hints (fold (svgImageStep win) xs st)) =
   take 5 (hintsOfType image (hints st)
           @ map (imageHintOf win)
               (filter (\<lambda>e. kind e = SVGElement
                          \<and> rect_width (clientRect e) \<noteq> 0 \<and> rect_height (clientRect e) \<noteq> 0
                          \<and> rect_width (clientRect e) * rect_height (clientRect e) > 400
                          \<and> 30 \<le> rect_width (clientRect e) \<and> 30 \<le> rect_height (clientRect e)) xs))"
proof (induction xs arbitrary: st)
  case Nil
  then have "length (hintsOfType image (hints st)) \<le> 5"
    unfolding hintStateOk_def by (metis CONTENT_MAX_COUNTS.simps(1))
  then show ?case by simp
next
  case (Cons x xs)
  have ok: "hintStateOk (svgImageStep win x st)"
    using Cons.prems by (rule steps_ok)
  show ?case
    using Cons.IH [OF ok] addHint_image [OF Cons.prems, of "getElementBoundingBox win x"]
    by (auto simp: svgImageStep_def imageHintOf_def getAbsoluteBoundingBox_def
                   getElementBoundingBox_def Let_def take_take_append
             simp del: take_append)
qed

lemma fold_other:
  "hintsOfType image (hints (fold (buttonStep win) xs st)) = hintsOfType image (hints st)"
  "hintsOfType image (hints (fold (svgIconStep win) xs st)) = hintsOfType image (hints st)"
  "hintsOfType image (hints (fold (iconFontStep win) xs st)) = hintsOfType image (hints st)"
  by (induction xs arbitrary: st;
      simp add: buttonStep_def svgIconStep_def iconFontStep_def Let_def addHint_other)+

lemma scan_ok: "\<exists>st. hintStateOk st \<and> scanContentHints win el = hints st"
proof -
  define st5 where "st5 =
    fold (iconFontStep win) (querySelectorAll (hasTag [''i'', ''span'']) el)
      (fold (svgIconStep win) (querySelectorAll (hasTag [''svg'']) el)
        (fold (buttonStep win) (querySelectorAll isButtonCandidate el)
          (fold (svgImageStep win) (querySelectorAll (hasTag [''svg'']) el)
            (fold (imageStep win) (querySelectorAll (hasTag [''img'', ''picture'', ''figure'']) el)
              \<lparr>hints = [], counts = (\<lambda>t. 0)\<rparr>))))"
  have ok5: "hintStateOk st5"
    unfolding st5_def by (intro fold_ok steps_ok hintStateOk_init)
  have ok6: "hintStateOk (case acc of None \<Rightarrow> st5
                     | Some (minX, minY, maxX, maxY) \<Rightarrow>
                         addHint st5 text_type
                           \<lparr>box_x = minX, box_y = minY, box_width = maxX - minX, box_height = maxY - minY\<rparr>
                           None)"
    for acc :: "(rat \<times> rat \<times> rat \<times> rat) option"
    using ok5 by (auto split: option.splits intro: addHint_ok)
  show ?thesis
    unfolding scanContentHints_def Let_def st5_def [symmetric]
    using ok5 ok6 by (auto simp del: CONTENT_MAX_COUNTS.simps)
qed

lemma scan_images:
  "hintsOfType image (scanContentHints win el) =
   take 5 (map (imageHintOf win)
             (filter qualifiesAsImage (descendants el) @ filter qualifiesAsSvgImage (descendants el)))"
proof -
  let ?st0 = "\<lparr>hints = [], counts = (\<lambda>t. 0)\<rparr>"
  let ?st1 = "fold (imageStep win) (querySelectorAll (hasTag [''img'', ''picture'', ''figure'']) el) ?st0"
  let ?st2 = "fold (svgImageStep win) (querySelectorAll (hasTag [''svg'']) el) ?st1"
  have ok1: "hintStateOk ?st1"
    by (intro fold_ok steps_ok hintStateOk_init)
  have f1: "filter (\<lambda>e. kind e = HTMLElement \<and> isElementVisible e
                       \<and> 30 \<le> rect_width (clientRect e) \<and> 30 \<le> rect_height (clientRect e))
              (querySelectorAll (hasTag [''img'', ''picture'', ''figure'']) el)
            = filter qualifiesAsImage (descendants el)"
    unfolding querySelectorAll_def filter_filter
    by (rule filter_cong) (auto simp: qualifiesAsImage_def)
  have f2: "filter (\<lambda>e. kind e = SVGElement
                       \<and> rect_width (clientRect e) \<noteq> 0 \<and> rect_height (clientRect e) \<noteq> 0
                       \<and> rect_width (clientRect e) * rect_height (clientRect e) > 400
                       \<and> 30 \<le> rect_width (clientRect e) \<and> 30 \<le> rect_height (clientRect e))
              (querySelectorAll (hasTag [''svg'']) el)
            = filter qualifiesAsSvgImage (descendants el)"
    unfolding querySelectorAll_def filter_filter
    by (rule filter_cong) (auto simp: qualifiesAsSvgImage_def)
  have e0: "hintsOfType image (hints ?st0) = []"
    by (simp add: hintsOfType_def)
  have i1: "hintsOfType image (hints ?st1) =
            take 5 (map (imageHintOf win) (filter qualifiesAsImage (descendants el)))"
    unfolding fold_imageStep [OF hintStateOk_init] f1 e0 by simp
  have i2: "hintsOfType image (hints ?st2) =
            take 5 (map (imageHintOf win)
              (filter qualifiesAsImage (descendants el) @ filter qualifiesAsSvgImage (descendants el)))"
    unfolding fold_svgImageStep [OF ok1] f2 i1 take_take_append by simp
  have "hintsOfType image (scanContentHints win el) = hintsOfType image (hints ?st2)"
    unfolding scanContentHints_def Let_def
    by (auto simp: fold_other addHint_other split: option.splits)
  then show ?thesis
    by (simp only: i2)
qed

lemma seven_img_facts:
  "\<not> list_ex noFailure (seven_img_div # descendants seven_img_div)
   \<and> length (filter qualifiesAsImage (descendants seven_img_div)) = 7
   \<and> take 5 (map (imageHintOf desktop)
               (filter qualifiesAsImage (descendants seven_img_div)
                @ filter qualifiesAsSvgImage (descendants seven_img_div)))
      = map (imageHintOf desktop) [img40 0, img40 100, img40 200, img40 300, img40 400]"
  by code_simp

text \<open>
  C6, as stated, fails in its last part. The image loop over img, picture and figure runs
  before the loop over vector graphics. The div that holds a vector graphic of 50 by 50
  and then six img elements of 40 by 40 has 7 qualifying image descendants, the first
  of them the vector graphic; the 5 image hints are those of the first five img
  elements, not those of the first 5 qualifying image descendants in document order.
\<close>

theorem image_hints_svg_first_counterexample:
  "length (filter (\<lambda>e. qualifiesAsImage e \<or> qualifiesAsSvgImage e) (descendants svg_first_div)) = 7
   \<and> take 5 (filter (\<lambda>e. qualifiesAsImage e \<or> qualifiesAsSvgImage e) (descendants svg_first_div))
       = [svg50, img40 100, img40 200, img40 300, img40 400]
   \<and> length (hintsOfType image (detectContentHints noFailure desktop svg_first_div)) = 5
   \<and> hintsOfType image (detectContentHints noFailure desktop svg_first_div)
       = map (imageHintOf desktop) [img40 100, img40 200, img40 300, img40 400, img40 500]
   \<and> hintsOfType image (detectContentHints noFailure desktop svg_first_div)
       \<noteq> map (imageHintOf desktop)
           (take 5 (filter (\<lambda>e. qualifiesAsImage e \<or> qualifiesAsSvgImage e) (descendants svg_first_div)))"
  by code_simp

text \<open>
  C6, amended. \<open>detectContentHints\<close> returns at most 5 image, 3 button, 1 text and 6
  icon hints, each meeting the minimum size of its type (image 30 by 30, button 50 by 20,
  text 50 by 10, icon 12 by 12). Where no read fails, its image hints are the first 5 of
  this list: the qualifying img, picture and figure descendants in document order,
  followed by the qualifying vector graphics (area above 400) in document order. So an
  element with 7 qualifying img, picture or figure descendants gets exactly 5 image
  hints, those of the first 5 of them in document order.
\<close>

theorem content_hint_caps:
  "length (hintsOfType image (detectContentHints hostFails win el)) \<le> 5
   \<and> length (hintsOfType button (detectContentHints hostFails win el)) \<le> 3
   \<and> length (hintsOfType text_type (detectContentHints hostFails win el)) \<le> 1
   \<and> length (hintsOfType icon (detectContentHints hostFails win el)) \<le> 6
   \<and> (\<forall>h \<in> set (detectContentHints hostFails win el). meetsMinSize h)
   \<and> (\<not> list_ex hostFails (el # descendants el) \<longrightarrow>
        hintsOfType image (detectContentHints hostFails win el) =
          take 5 (map (imageHintOf win)
                    (filter qualifiesAsImage (descendants el)
                     @ filter qualifiesAsSvgImage (descendants el))))"
proof (cases "list_ex hostFails (el # descendants el)")
  case True
  then show ?thesis
    by (simp add: detectContentHints_def detectContentHintsUnsafe_def hintsOfType_def)
next
  case False
  then have d: "detectContentHints hostFails win el = scanContentHints win el"
    by (simp add: detectContentHints_def detectContentHintsUnsafe_def)
  obtain st where st: "hintStateOk st" "scanContentHints win el = hints st"
    using scan_ok by blast
  have len: "length (hintsOfType t (hints st)) \<le> CONTENT_MAX_COUNTS t" for t
    using st(1) unfolding hintStateOk_def by metis
  have "\<forall>h \<in> set (hints st). meetsMinSize h"
    using st(1) unfolding hintStateOk_def by blast
  then show ?thesis
    using len [of image] len [of button] len [of text_type] len [of icon] False
    by (simp add: d st(2) scan_images [of win el, unfolded st(2)])
qed

theorem content_hint_caps_witness:
  "\<not> list_ex noFailure (seven_img_div # descendants seven_img_div)
   \<and> length (filter qualifiesAsImage (descendants seven_img_div)) = 7
   \<and> hintsOfType image (detectContentHints noFailure desktop seven_img_div)
       = map (imageHintOf desktop) [img40 0, img40 100, img40 200, img40 300, img40 400]"
proof -
  have h: "\<not> list_ex noFailure (seven_img_div # descendants seven_img_div)"
    and l: "length (filter qualifiesAsImage (descendants seven_img_div)) = 7"
    and t: "take 5 (map (imageHintOf desktop)
               (filter qualifiesAsImage (descendants seven_img_div)
                @ filter qualifiesAsSvgImage (descendants seven_img_div)))
      = map (imageHintOf desktop) [img40 0, img40 100, img40 200, img40 300, img40 400]"
    using seven_img_facts by blast+
  have e: "hintsOfType image (detectContentHints noFailure desktop seven_img_div) =
      take 5 (map (imageHintOf desktop)
               (filter qualifiesAsImage (descendants seven_img_div)
                @ filter qualifiesAsSvgImage (descendants seven_img_div)))"
    using content_hint_caps [of noFailure desktop seven_img_div] h by blast
  show ?thesis
    using h l e [unfolded t] by blast
qed

subsection \<open>A grid with a narrow sibling\<close>
























end
